theory Spec2Isabelle
  imports Main "HOL-Library.Char_ord" "HOL-Library.List_Lexorder"
begin

section \<open>Wiki pages of the Redmine client (wikies.go)\<close>

text \<open>
  The module binds six REST actions on wiki pages. Each operation builds a \<open>url.URL\<close>,
  hands it to one method of the receiver \<open>r *Context\<close> (\<open>Get\<close>, \<open>Put\<close> or \<open>Del\<close>)
  together with the request body, a pointer to the destination and the expected status,
  and returns what the destination holds afterwards with the status and the error of the
  method. Go strings are byte sequences: \<^typ>\<open>string\<close>. Go's \<open>int\<close> is modelled by
  \<^typ>\<open>int\<close>; no arithmetic is done on it here. A slice is a list, the nil slice being
  \<open>[]\<close>; a pointer that may be nil is an \<open>option\<close>.
\<close>

subsection \<open>Data model\<close>

record WikiParentObject =
  Title :: string

record WikiMultiObject =
  Title :: string
  Parent :: "WikiParentObject option"
  Version :: int
  CreatedOn :: string
  UpdatedOn :: string

text \<open>
  Modelled from the spec: the declaration of \<open>IDName\<close> is in another file of the
  package; the spec describes the author as an "id+name pair".
\<close>

record IDName =
  ID :: int
  Name :: string

text \<open>
  \<open>AttachmentObject\<close> and \<open>AttachmentUploadObject\<close> are declared in another file of the
  package; they are the type parameters \<open>'a\<close> and \<open>'u\<close>.
\<close>

record 'a WikiObject =
  Title :: string
  Parent :: "WikiParentObject option"
  Text :: string
  Version :: int
  Author :: IDName
  Comments :: string
  CreatedOn :: string
  UpdatedOn :: string
  Attachments :: "'a list option"

record 'u WikiCreateObject =
  Text :: string
  Comments :: string
  Uploads :: "'u list"

record 'u WikiUpdateObject =
  Text :: string
  Comments :: string
  Version :: int
  Uploads :: "'u list"

record WikiSingleGetRequest =
  Includes :: "string list"

record wikiAllResult =
  WikiPages :: "WikiMultiObject list"

record 'a wikiSingleResult =
  WikiPage :: "'a WikiObject"

record 'u wikiCreate =
  WikiPage :: "'u WikiCreateObject"

record 'u wikiUpdate =
  WikiPage :: "'u WikiUpdateObject"

text \<open>The zero values that \<open>var w wikiAllResult\<close> and \<open>var w wikiSingleResult\<close> declare.\<close>

definition WikiObject_zero :: "'a WikiObject" where
  "WikiObject_zero =
     \<lparr>WikiObject.Title = '''', WikiObject.Parent = None, WikiObject.Text = '''',
      WikiObject.Version = 0, Author = \<lparr>ID = 0, Name = ''''\<rparr>, WikiObject.Comments = '''',
      WikiObject.CreatedOn = '''', WikiObject.UpdatedOn = '''', Attachments = None\<rparr>"

definition wikiAllResult_zero :: wikiAllResult where
  "wikiAllResult_zero = \<lparr>WikiPages = []\<rparr>"

definition wikiSingleResult_zero :: "'a wikiSingleResult" where
  "wikiSingleResult_zero = \<lparr>wikiSingleResult.WikiPage = WikiObject_zero\<rparr>"

subsection \<open>net/http, strconv, strings and net/url\<close>

definition StatusOK :: int where "StatusOK = 200"
definition StatusCreated :: int where "StatusCreated = 201"
definition StatusNoContent :: int where "StatusNoContent = 204"

text \<open>\<open>strconv.Itoa\<close>: the decimal digits, most significant first, after a minus sign
  for a negative number.\<close>

definition digit_char :: "nat \<Rightarrow> char" where
  "digit_char d = char_of (48 + d)"

function udigits :: "nat \<Rightarrow> string" where
  "udigits n = (if n < 10 then [digit_char n] else udigits (n div 10) @ [digit_char (n mod 10)])"
  by pat_completeness auto
termination
  by (relation "measure id") auto

declare udigits.simps [simp del]

definition Itoa :: "int \<Rightarrow> string" where
  "Itoa i = (if i < 0 then CHR ''-'' # udigits (nat (- i)) else udigits (nat i))"

text \<open>Reading a decimal numeral back, to say what "rendered in decimal" means.\<close>

definition digit_val :: "char \<Rightarrow> nat" where
  "digit_val c = of_char c - 48"

definition decimal_nat :: "string \<Rightarrow> nat" where
  "decimal_nat ds = foldl (\<lambda>acc c. 10 * acc + digit_val c) 0 ds"

fun decimal_int :: "string \<Rightarrow> int" where
  "decimal_int [] = 0"
| "decimal_int (c # cs) = (if c = CHR ''-'' then - int (decimal_nat cs) else int (decimal_nat (c # cs)))"

text \<open>\<open>strings.Join\<close>.\<close>

fun Join :: "string list \<Rightarrow> string \<Rightarrow> string" where
  "Join [] sep = ''''"
| "Join [x] sep = x"
| "Join (x # y # xs) sep = x @ sep @ Join (y # xs) sep"

text \<open>
  \<open>url.Values\<close> is a \<open>map[string][]string\<close>: an association list with one entry for a
  key. \<open>Add\<close> appends a value to the values of the key. \<open>Encode\<close> writes
  \<open>key=value\<close> for every value of every key, the keys sorted, both sides escaped by
  \<open>QueryEscape\<close>, the pieces joined by \<open>&\<close>.
\<close>

type_synonym Values = "(string \<times> string list) list"

fun Values_Add :: "Values \<Rightarrow> string \<Rightarrow> string \<Rightarrow> Values" where
  "Values_Add [] key v = [(key, [v])]"
| "Values_Add ((k, vs) # m) key v =
     (if k = key then (k, vs @ [v]) # m else (k, vs) # Values_Add m key v)"

definition is_alnum :: "char \<Rightarrow> bool" where
  "is_alnum c = (let n = (of_char c :: nat) in
     (97 \<le> n \<and> n \<le> 122) \<or> (65 \<le> n \<and> n \<le> 90) \<or> (48 \<le> n \<and> n \<le> 57))"

definition shouldEscape :: "char \<Rightarrow> bool" where
  "shouldEscape c = (if is_alnum c then False
     else if c \<in> set ''-_.~'' then False
     else True)"

definition upperhex :: string where
  "upperhex = ''0123456789ABCDEF''"

definition escape_byte :: "char \<Rightarrow> string" where
  "escape_byte c =
     (if shouldEscape c then
        (if c = CHR '' '' then ''+''
         else [CHR ''%'', upperhex ! ((of_char c :: nat) div 16), upperhex ! ((of_char c :: nat) mod 16)])
      else [c])"

definition QueryEscape :: "string \<Rightarrow> string" where
  "QueryEscape s = concat (map escape_byte s)"

definition Values_Encode :: "Values \<Rightarrow> string" where
  "Values_Encode v =
     Join (concat (map (\<lambda>(k, vs). map (\<lambda>x. QueryEscape k @ ''='' @ QueryEscape x) vs)
                       (sort_key fst v))) ''&''"

text \<open>The fields of \<open>url.URL\<close> that the module sets; every other field stays zero.\<close>

record URL =
  Path :: string
  RawQuery :: string

text \<open>
  Modelled from the spec: \<open>urlIncludes\<close> is defined in another file of the package. The
  spec: "if an include-set is supplied, serialize it as a repeated/comma-joined query
  parameter", "empty include-set produces no query string", and the parameter is
  \<open>include\<close> (\<open>?include=...\<close>).
\<close>

definition urlIncludes :: "Values \<Rightarrow> string list \<Rightarrow> Values" where
  "urlIncludes urlParams includes =
     (if includes = [] then urlParams else Values_Add urlParams ''include'' (Join includes '',''))"

subsection \<open>The transport\<close>

text \<open>
  An \<open>error\<close> value is opaque to the module; nil is \<open>None\<close>.
  The \<open>interface{}\<close> arguments of the transport methods: the body is nil or one of the
  two request wrappers; the destination is nil or a pointer to \<open>w\<close>, shown with the
  value \<open>w\<close> holds.
\<close>

datatype error = Error string

datatype 'u body = InNil | InCreate "'u wikiCreate" | InUpdate "'u wikiUpdate"

datatype 'a dest = OutNil | OutAll wikiAllResult | OutSingle "'a wikiSingleResult"

text \<open>
  A method of the transport takes the state of the world (the server, the network) and
  returns the destination as it is after the call, the status, the error and the next
  state of the world. The methods are declared in another file of the package; here they
  are the fields of the receiver, and every theorem holds for all of them. \<open>Get\<close> takes
  the destination, the URL and the expected status; \<open>Put\<close> takes the body first. The
  module calls \<open>Del\<close> with nil for both of its first two arguments, so their order
  plays no part.
\<close>

type_synonym ('a, 'w) reply = "('a dest \<times> int \<times> error option) \<times> 'w"

record ('u, 'a, 'w) Context =
  Get :: "'a dest \<Rightarrow> URL \<Rightarrow> int \<Rightarrow> 'w \<Rightarrow> ('a, 'w) reply"
  Put :: "'u body \<Rightarrow> 'a dest \<Rightarrow> URL \<Rightarrow> int \<Rightarrow> 'w \<Rightarrow> ('a, 'w) reply"
  Del :: "'u body \<Rightarrow> 'a dest \<Rightarrow> URL \<Rightarrow> int \<Rightarrow> 'w \<Rightarrow> ('a, 'w) reply"

text \<open>
  Reading \<open>w\<close> after the call. The type of \<open>w\<close> is fixed by its declaration, so a
  destination of another shape cannot have been stored in it: \<open>w\<close> is then as before.
\<close>

fun load_all :: "'a dest \<Rightarrow> wikiAllResult \<Rightarrow> wikiAllResult" where
  "load_all (OutAll w') w = w'"
| "load_all _ w = w"

fun load_single :: "'a dest \<Rightarrow> 'a wikiSingleResult \<Rightarrow> 'a wikiSingleResult" where
  "load_single (OutSingle w') w = w'"
| "load_single _ w = w"

subsection \<open>The six operations\<close>

definition WikiAllGet ::
  "('u, 'a, 'w) Context \<Rightarrow> string \<Rightarrow> 'w \<Rightarrow> (WikiMultiObject list \<times> int \<times> error option) \<times> 'w" where
  "WikiAllGet r projectID s =
     (let w = wikiAllResult_zero;
          ur = \<lparr>Path = ''/projects/'' @ projectID @ ''/wiki/index.json'', RawQuery = ''''\<rparr>;
          ((out, status, err), s') = Get r (OutAll w) ur StatusOK s;
          w = load_all out w
      in ((WikiPages w, status, err), s'))"

definition WikiSingleGet ::
  "('u, 'a, 'w) Context \<Rightarrow> string \<Rightarrow> string \<Rightarrow> WikiSingleGetRequest \<Rightarrow> 'w
     \<Rightarrow> ('a WikiObject \<times> int \<times> error option) \<times> 'w" where
  "WikiSingleGet r projectID wikiTitle request s =
     (let w = wikiSingleResult_zero;
          urlParams = [];
          urlParams = urlIncludes urlParams (Includes request);
          ur = \<lparr>Path = ''/projects/'' @ projectID @ ''/wiki/'' @ wikiTitle @ ''.json'',
                RawQuery = Values_Encode urlParams\<rparr>;
          ((out, status, err), s') = Get r (OutSingle w) ur StatusOK s;
          w = load_single out w
      in ((wikiSingleResult.WikiPage w, status, err), s'))"

definition WikiSingleVersionGet ::
  "('u, 'a, 'w) Context \<Rightarrow> string \<Rightarrow> string \<Rightarrow> int \<Rightarrow> WikiSingleGetRequest \<Rightarrow> 'w
     \<Rightarrow> ('a WikiObject \<times> int \<times> error option) \<times> 'w" where
  "WikiSingleVersionGet r projectID wikiTitle version request s =
     (let w = wikiSingleResult_zero;
          urlParams = [];
          urlParams = urlIncludes urlParams (Includes request);
          ur = \<lparr>Path = ''/projects/'' @ projectID @ ''/wiki/'' @ wikiTitle @ ''/'' @ Itoa version @ ''.json'',
                RawQuery = Values_Encode urlParams\<rparr>;
          ((out, status, err), s') = Get r (OutSingle w) ur StatusOK s;
          w = load_single out w
      in ((wikiSingleResult.WikiPage w, status, err), s'))"

definition WikiCreate ::
  "('u, 'a, 'w) Context \<Rightarrow> string \<Rightarrow> string \<Rightarrow> 'u WikiCreateObject \<Rightarrow> 'w
     \<Rightarrow> ('a WikiObject \<times> int \<times> error option) \<times> 'w" where
  "WikiCreate r projectID wikiTitle wiki s =
     (let w = wikiSingleResult_zero;
          ur = \<lparr>Path = ''/projects/'' @ projectID @ ''/wiki/'' @ wikiTitle @ ''.json'', RawQuery = ''''\<rparr>;
          ((out, status, err), s') =
             Put r (InCreate \<lparr>wikiCreate.WikiPage = wiki\<rparr>) (OutSingle w) ur StatusCreated s;
          w = load_single out w
      in ((wikiSingleResult.WikiPage w, status, err), s'))"

definition WikiUpdate ::
  "('u, 'a, 'w) Context \<Rightarrow> string \<Rightarrow> string \<Rightarrow> 'u WikiUpdateObject \<Rightarrow> 'w
     \<Rightarrow> (int \<times> error option) \<times> 'w" where
  "WikiUpdate r projectID wikiTitle wiki s =
     (let ur = \<lparr>Path = ''/projects/'' @ projectID @ ''/wiki/'' @ wikiTitle @ ''.json'', RawQuery = ''''\<rparr>;
          ((out, status, err), s') =
             Put r (InUpdate \<lparr>wikiUpdate.WikiPage = wiki\<rparr>) OutNil ur StatusNoContent s
      in ((status, err), s'))"

definition WikiDelete ::
  "('u, 'a, 'w) Context \<Rightarrow> string \<Rightarrow> string \<Rightarrow> 'w \<Rightarrow> (int \<times> error option) \<times> 'w" where
  "WikiDelete r projectID wikiTitle s =
     (let ur = \<lparr>Path = ''/projects/'' @ projectID @ ''/wiki/'' @ wikiTitle @ ''.json'', RawQuery = ''''\<rparr>;
          ((out, status, err), s') = Del r InNil OutNil ur StatusNoContent s
      in ((status, err), s'))"

subsection \<open>Observing the calls\<close>

text \<open>
  To say which calls an operation makes, a transport is wrapped so that every call is
  appended to a log kept beside the state of the world. The wrapper answers as the
  transport it wraps.
\<close>

datatype verb = GET | PUT | DELETE

record ('u, 'a) call =
  verb :: verb
  body :: "'u body"
  dest :: "'a dest"
  url :: URL
  expected :: int

definition record_call ::
  "verb \<Rightarrow> ('u body \<Rightarrow> 'a dest \<Rightarrow> URL \<Rightarrow> int \<Rightarrow> 'w \<Rightarrow> ('a, 'w) reply)
     \<Rightarrow> 'u body \<Rightarrow> 'a dest \<Rightarrow> URL \<Rightarrow> int \<Rightarrow> ('u, 'a) call list \<times> 'w
     \<Rightarrow> ('a, ('u, 'a) call list \<times> 'w) reply" where
  "record_call v m b d ur st ls =
     (let (res, s') = m b d ur st (snd ls)
      in (res, (fst ls @ [\<lparr>verb = v, body = b, dest = d, url = ur, expected = st\<rparr>], s')))"

definition recording ::
  "('u, 'a, 'w) Context \<Rightarrow> ('u, 'a, ('u, 'a) call list \<times> 'w) Context" where
  "recording r =
     \<lparr>Get = record_call GET (\<lambda>b. Get r) InNil,
      Put = record_call PUT (Put r),
      Del = record_call DELETE (Del r)\<rparr>"

definition trace :: "'x \<times> ('c list \<times> 'w) \<Rightarrow> 'c list" where
  "trace res = fst (snd res)"

text \<open>A transport that answers every call with the same destination, status and error
  and leaves the world as it is.\<close>

definition answer :: "'a dest \<Rightarrow> int \<Rightarrow> error option \<Rightarrow> 'w \<Rightarrow> ('a, 'w) reply" where
  "answer d st e s = ((d, st, e), s)"

definition replying :: "'a dest \<Rightarrow> int \<Rightarrow> error option \<Rightarrow> ('u, 'a, 'w) Context" where
  "replying d st e =
     \<lparr>Get = (\<lambda>out ur x. answer d st e),
      Put = (\<lambda>b out ur x. answer d st e),
      Del = (\<lambda>b out ur x. answer d st e)\<rparr>"

text \<open>A transport that fails before it touches the destination.\<close>

definition failing :: "int \<Rightarrow> error \<Rightarrow> ('u, 'a, 'w) Context" where
  "failing st e =
     \<lparr>Get = (\<lambda>out ur x. answer out st (Some e)),
      Put = (\<lambda>b out ur x. answer out st (Some e)),
      Del = (\<lambda>b out ur x. answer out st (Some e))\<rparr>"

subsection \<open>The JSON bodies\<close>

text \<open>
  The transport marshals the body with \<open>encoding/json\<close>, which follows the field tags
  of the structs: the members in the order of the fields, under the names of the tags, a
  member tagged \<open>omitempty\<close> left out when the field is \<open>""\<close>, \<open>0\<close> or a slice of
  length 0. \<open>json\<close> is the tree of members and values; how a value is written as text is
  not modelled. The encoding of an \<open>AttachmentUploadObject\<close> is the parameter \<open>enc\<close>.
\<close>

datatype json = JNull | JNumber int | JString string | JArray "json list"
  | JObject "(string \<times> json) list"

definition omitempty :: "bool \<Rightarrow> string \<Rightarrow> json \<Rightarrow> (string \<times> json) list" where
  "omitempty is_empty name v = (if is_empty then [] else [(name, v)])"

definition Marshal_WikiCreateObject :: "('u \<Rightarrow> json) \<Rightarrow> 'u WikiCreateObject \<Rightarrow> json" where
  "Marshal_WikiCreateObject enc w = JObject
     ([(''text'', JString (WikiCreateObject.Text w))]
      @ omitempty (WikiCreateObject.Comments w = '''') ''comments'' (JString (WikiCreateObject.Comments w))
      @ omitempty (WikiCreateObject.Uploads w = []) ''uploads'' (JArray (map enc (WikiCreateObject.Uploads w))))"

definition Marshal_WikiUpdateObject :: "('u \<Rightarrow> json) \<Rightarrow> 'u WikiUpdateObject \<Rightarrow> json" where
  "Marshal_WikiUpdateObject enc w = JObject
     ([(''text'', JString (WikiUpdateObject.Text w))]
      @ omitempty (WikiUpdateObject.Comments w = '''') ''comments'' (JString (WikiUpdateObject.Comments w))
      @ omitempty (WikiUpdateObject.Version w = 0) ''version'' (JNumber (WikiUpdateObject.Version w))
      @ omitempty (WikiUpdateObject.Uploads w = []) ''uploads'' (JArray (map enc (WikiUpdateObject.Uploads w))))"

fun Marshal :: "('u \<Rightarrow> json) \<Rightarrow> 'u body \<Rightarrow> json" where
  "Marshal enc InNil = JNull"
| "Marshal enc (InCreate c) =
     JObject [(''wiki_page'', Marshal_WikiCreateObject enc (wikiCreate.WikiPage c))]"
| "Marshal enc (InUpdate u) =
     JObject [(''wiki_page'', Marshal_WikiUpdateObject enc (wikiUpdate.WikiPage u))]"

fun members :: "json \<Rightarrow> (string \<times> json) list" where
  "members (JObject ms) = ms"
| "members _ = []"

definition keys :: "json \<Rightarrow> string list" where
  "keys j = map fst (members j)"

definition member :: "json \<Rightarrow> string \<Rightarrow> json option" where
  "member j k = map_of (members j) k"

definition sent_bodies :: "('u \<Rightarrow> json) \<Rightarrow> 'x \<times> (('u, 'a) call list \<times> 'w) \<Rightarrow> json list" where
  "sent_bodies enc res = map (Marshal enc \<circ> body) (trace res)"

text \<open>In the examples an upload is its token.\<close>

definition token_json :: "string \<Rightarrow> json" where
  "token_json t = JObject [(''token'', JString t)]"

text \<open>What an operation hands back beside the decoded value: the status and the error.\<close>

definition outcome :: "('x \<times> int \<times> error option) \<times> 'w \<Rightarrow> int \<times> error option" where
  "outcome res = snd (fst res)"

text \<open>A page summary and a page for the examples.\<close>

definition summary :: "string \<Rightarrow> int \<Rightarrow> WikiMultiObject" where
  "summary t v =
     \<lparr>WikiMultiObject.Title = t, WikiMultiObject.Parent = None, WikiMultiObject.Version = v,
      WikiMultiObject.CreatedOn = '''', WikiMultiObject.UpdatedOn = ''''\<rparr>"

definition page_of :: "string \<Rightarrow> string \<Rightarrow> int \<Rightarrow> 'a WikiObject" where
  "page_of t x v =
     WikiObject_zero\<lparr>WikiObject.Title := t, WikiObject.Text := x, WikiObject.Version := v\<rparr>"

section \<open>Properties\<close>

subsection \<open>Decimal rendering\<close>

lemma of_char_digit_char: "d < 10 \<Longrightarrow> (of_char (digit_char d) :: nat) = 48 + d"
  by (simp add: digit_char_def)

lemma digit_val_digit_char: "d < 10 \<Longrightarrow> digit_val (digit_char d) = d"
  by (simp add: digit_val_def of_char_digit_char)

lemma digit_char_not_minus: "d < 10 \<Longrightarrow> digit_char d \<noteq> CHR ''-''"
proof
  assume d: "d < 10" and "digit_char d = CHR ''-''"
  then have "(of_char (digit_char d) :: nat) = of_char CHR ''-''" by simp
  with d show False by (simp add: of_char_digit_char)
qed

lemma decimal_nat_snoc: "decimal_nat (ds @ [c]) = 10 * decimal_nat ds + digit_val c"
  by (simp add: decimal_nat_def)

lemma decimal_nat_single: "decimal_nat [c] = digit_val c"
  by (simp add: decimal_nat_def)

lemma decimal_nat_udigits: "decimal_nat (udigits n) = n"
proof (induction n rule: udigits.induct)
  case (1 n)
  show ?case
  proof (cases "n < 10")
    case True
    then have "udigits n = [digit_char n]" by (simp add: udigits.simps)
    with True show ?thesis by (simp add: decimal_nat_single digit_val_digit_char)
  next
    case False
    then have "udigits n = udigits (n div 10) @ [digit_char (n mod 10)]"
      by (subst udigits.simps) simp
    then have "decimal_nat (udigits n) =
        10 * decimal_nat (udigits (n div 10)) + digit_val (digit_char (n mod 10))"
      by (simp only: decimal_nat_snoc)
    with 1 False show ?thesis by (simp add: digit_val_digit_char)
  qed
qed

lemma udigits_head: "\<exists>d cs. d < 10 \<and> udigits n = digit_char d # cs"
proof (induction n rule: udigits.induct)
  case (1 n)
  show ?case
  proof (cases "n < 10")
    case True
    then have "udigits n = [digit_char n]" by (simp add: udigits.simps)
    with True show ?thesis by blast
  next
    case False
    with 1 obtain d cs where d: "d < 10" and u: "udigits (n div 10) = digit_char d # cs" by blast
    from False have "udigits n = udigits (n div 10) @ [digit_char (n mod 10)]"
      by (subst udigits.simps) simp
    with u have "udigits n = digit_char d # (cs @ [digit_char (n mod 10)])" by simp
    with d show ?thesis by blast
  qed
qed

lemma decimal_int_Itoa: "decimal_int (Itoa i) = i"
proof (cases "i < 0")
  case True
  then show ?thesis by (simp add: Itoa_def decimal_nat_udigits)
next
  case False
  obtain d cs where d: "d < 10" and u: "udigits (nat i) = digit_char d # cs"
    using udigits_head by blast
  have "decimal_int (udigits (nat i)) = int (decimal_nat (udigits (nat i)))"
    unfolding u using digit_char_not_minus [OF d] by simp
  with False show ?thesis by (simp add: Itoa_def decimal_nat_udigits)
qed

subsection \<open>The query string of an include-set\<close>

lemma Encode_no_includes: "Values_Encode (urlIncludes [] []) = ''''"
  by (simp add: Values_Encode_def urlIncludes_def)

lemma Encode_attachments: "Values_Encode (urlIncludes [] [''attachments'']) = ''include=attachments''"
  by (simp add: Values_Encode_def urlIncludes_def QueryEscape_def escape_byte_def
      shouldEscape_def is_alnum_def)

subsection \<open>The call each operation makes\<close>

lemma Get_recording:
  "Get (recording r) d ur st (log, s) =
     (fst (Get r d ur st s),
      (log @ [\<lparr>verb = GET, body = InNil, dest = d, url = ur, expected = st\<rparr>], snd (Get r d ur st s)))"
  by (simp add: recording_def record_call_def split_beta)

lemma Put_recording:
  "Put (recording r) b d ur st (log, s) =
     (fst (Put r b d ur st s),
      (log @ [\<lparr>verb = PUT, body = b, dest = d, url = ur, expected = st\<rparr>], snd (Put r b d ur st s)))"
  by (simp add: recording_def record_call_def split_beta)

lemma Del_recording:
  "Del (recording r) b d ur st (log, s) =
     (fst (Del r b d ur st s),
      (log @ [\<lparr>verb = DELETE, body = b, dest = d, url = ur, expected = st\<rparr>], snd (Del r b d ur st s)))"
  by (simp add: recording_def record_call_def split_beta)

lemma trace_WikiAllGet:
  "trace (WikiAllGet (recording r) projectID (log, s)) =
     log @ [\<lparr>verb = GET, body = InNil, dest = OutAll wikiAllResult_zero,
              url = \<lparr>Path = ''/projects/'' @ projectID @ ''/wiki/index.json'', RawQuery = ''''\<rparr>,
              expected = 200\<rparr>]"
  by (simp add: WikiAllGet_def trace_def Get_recording StatusOK_def split_beta Let_def)

lemma trace_WikiSingleGet:
  "trace (WikiSingleGet (recording r) projectID wikiTitle request (log, s)) =
     log @ [\<lparr>verb = GET, body = InNil, dest = OutSingle wikiSingleResult_zero,
              url = \<lparr>Path = ''/projects/'' @ projectID @ ''/wiki/'' @ wikiTitle @ ''.json'',
                     RawQuery = Values_Encode (urlIncludes [] (Includes request))\<rparr>,
              expected = 200\<rparr>]"
  by (simp add: WikiSingleGet_def trace_def Get_recording StatusOK_def split_beta Let_def)

lemma trace_WikiSingleVersionGet:
  "trace (WikiSingleVersionGet (recording r) projectID wikiTitle version request (log, s)) =
     log @ [\<lparr>verb = GET, body = InNil, dest = OutSingle wikiSingleResult_zero,
              url = \<lparr>Path = ''/projects/'' @ projectID @ ''/wiki/'' @ wikiTitle @ ''/''
                            @ Itoa version @ ''.json'',
                     RawQuery = Values_Encode (urlIncludes [] (Includes request))\<rparr>,
              expected = 200\<rparr>]"
  by (simp add: WikiSingleVersionGet_def trace_def Get_recording StatusOK_def split_beta Let_def)

lemma trace_WikiCreate:
  "trace (WikiCreate (recording r) projectID wikiTitle wiki (log, s)) =
     log @ [\<lparr>verb = PUT, body = InCreate \<lparr>wikiCreate.WikiPage = wiki\<rparr>,
              dest = OutSingle wikiSingleResult_zero,
              url = \<lparr>Path = ''/projects/'' @ projectID @ ''/wiki/'' @ wikiTitle @ ''.json'',
                     RawQuery = ''''\<rparr>,
              expected = 201\<rparr>]"
  by (simp add: WikiCreate_def trace_def Put_recording StatusCreated_def split_beta Let_def)

lemma trace_WikiUpdate:
  "trace (WikiUpdate (recording r) projectID wikiTitle wiki (log, s)) =
     log @ [\<lparr>verb = PUT, body = InUpdate \<lparr>wikiUpdate.WikiPage = wiki\<rparr>, dest = OutNil,
              url = \<lparr>Path = ''/projects/'' @ projectID @ ''/wiki/'' @ wikiTitle @ ''.json'',
                     RawQuery = ''''\<rparr>,
              expected = 204\<rparr>]"
  by (simp add: WikiUpdate_def trace_def Put_recording StatusNoContent_def split_beta Let_def)

lemma trace_WikiDelete:
  "trace (WikiDelete (recording r) projectID wikiTitle (log, s)) =
     log @ [\<lparr>verb = DELETE, body = InNil, dest = OutNil,
              url = \<lparr>Path = ''/projects/'' @ projectID @ ''/wiki/'' @ wikiTitle @ ''.json'',
                     RawQuery = ''''\<rparr>,
              expected = 204\<rparr>]"
  by (simp add: WikiDelete_def trace_def Del_recording StatusNoContent_def split_beta Let_def)

subsection \<open>What each operation returns\<close>

lemma WikiAllGet_result:
  "WikiAllGet r projectID s =
     (case Get r (OutAll wikiAllResult_zero)
             \<lparr>Path = ''/projects/'' @ projectID @ ''/wiki/index.json'', RawQuery = ''''\<rparr> 200 s of
        ((out, status, err), s') \<Rightarrow> ((WikiPages (load_all out wikiAllResult_zero), status, err), s'))"
  by (simp add: WikiAllGet_def StatusOK_def split_beta Let_def)

lemma WikiSingleGet_result:
  "WikiSingleGet r projectID wikiTitle request s =
     (case Get r (OutSingle wikiSingleResult_zero)
             \<lparr>Path = ''/projects/'' @ projectID @ ''/wiki/'' @ wikiTitle @ ''.json'',
              RawQuery = Values_Encode (urlIncludes [] (Includes request))\<rparr> 200 s of
        ((out, status, err), s') \<Rightarrow>
          ((wikiSingleResult.WikiPage (load_single out wikiSingleResult_zero), status, err), s'))"
  by (simp add: WikiSingleGet_def StatusOK_def split_beta Let_def)

lemma WikiSingleVersionGet_result:
  "WikiSingleVersionGet r projectID wikiTitle version request s =
     (case Get r (OutSingle wikiSingleResult_zero)
             \<lparr>Path = ''/projects/'' @ projectID @ ''/wiki/'' @ wikiTitle @ ''/'' @ Itoa version @ ''.json'',
              RawQuery = Values_Encode (urlIncludes [] (Includes request))\<rparr> 200 s of
        ((out, status, err), s') \<Rightarrow>
          ((wikiSingleResult.WikiPage (load_single out wikiSingleResult_zero), status, err), s'))"
  by (simp add: WikiSingleVersionGet_def StatusOK_def split_beta Let_def)

lemma WikiCreate_result:
  "WikiCreate r projectID wikiTitle wiki s =
     (case Put r (InCreate \<lparr>wikiCreate.WikiPage = wiki\<rparr>) (OutSingle wikiSingleResult_zero)
             \<lparr>Path = ''/projects/'' @ projectID @ ''/wiki/'' @ wikiTitle @ ''.json'', RawQuery = ''''\<rparr>
             201 s of
        ((out, status, err), s') \<Rightarrow>
          ((wikiSingleResult.WikiPage (load_single out wikiSingleResult_zero), status, err), s'))"
  by (simp add: WikiCreate_def StatusCreated_def split_beta Let_def)

lemma WikiUpdate_result:
  "WikiUpdate r projectID wikiTitle wiki s =
     (case Put r (InUpdate \<lparr>wikiUpdate.WikiPage = wiki\<rparr>) OutNil
             \<lparr>Path = ''/projects/'' @ projectID @ ''/wiki/'' @ wikiTitle @ ''.json'', RawQuery = ''''\<rparr>
             204 s of
        ((out, status, err), s') \<Rightarrow> ((status, err), s'))"
  by (simp add: WikiUpdate_def StatusNoContent_def split_beta Let_def)

lemma WikiDelete_result:
  "WikiDelete r projectID wikiTitle s =
     (case Del r InNil OutNil
             \<lparr>Path = ''/projects/'' @ projectID @ ''/wiki/'' @ wikiTitle @ ''.json'', RawQuery = ''''\<rparr>
             204 s of
        ((out, status, err), s') \<Rightarrow> ((status, err), s'))"
  by (simp add: WikiDelete_def StatusNoContent_def split_beta Let_def)

lemma replying_simps:
  "Get (replying d st e) out ur x s = ((d, st, e), s)"
  "Put (replying d st e) b out ur x s = ((d, st, e), s)"
  "Del (replying d st e) b out ur x s = ((d, st, e), s)"
  by (simp_all add: replying_def answer_def)

lemma failing_simps:
  "Get (failing st e) out ur x s = ((out, st, Some e), s)"
  "Put (failing st e) b out ur x s = ((out, st, Some e), s)"
  "Del (failing st e) b out ur x s = ((out, st, Some e), s)"
  by (simp_all add: failing_def answer_def)

section \<open>The claims\<close>

text \<open>
  C1. Every operation hands back the status and the error of its transport call as they
  are: for every transport \<open>r\<close> and every state of the world, the status and error of
  the operation are those of the one method call it makes. No status is turned into an
  error here: when \<open>Del\<close> answers 500 with a nil error, \<open>WikiDelete\<close> returns 500 and a
  nil error.
\<close>

theorem wiki_status_error_passthrough:
  "outcome (WikiAllGet r projectID s) =
     outcome (Get r (OutAll wikiAllResult_zero)
       \<lparr>Path = ''/projects/'' @ projectID @ ''/wiki/index.json'', RawQuery = ''''\<rparr> 200 s)
   \<and> outcome (WikiSingleGet r projectID wikiTitle request s) =
     outcome (Get r (OutSingle wikiSingleResult_zero)
       \<lparr>Path = ''/projects/'' @ projectID @ ''/wiki/'' @ wikiTitle @ ''.json'',
        RawQuery = Values_Encode (urlIncludes [] (Includes request))\<rparr> 200 s)
   \<and> outcome (WikiSingleVersionGet r projectID wikiTitle version request s) =
     outcome (Get r (OutSingle wikiSingleResult_zero)
       \<lparr>Path = ''/projects/'' @ projectID @ ''/wiki/'' @ wikiTitle @ ''/'' @ Itoa version @ ''.json'',
        RawQuery = Values_Encode (urlIncludes [] (Includes request))\<rparr> 200 s)
   \<and> outcome (WikiCreate r projectID wikiTitle create s) =
     outcome (Put r (InCreate \<lparr>wikiCreate.WikiPage = create\<rparr>) (OutSingle wikiSingleResult_zero)
       \<lparr>Path = ''/projects/'' @ projectID @ ''/wiki/'' @ wikiTitle @ ''.json'', RawQuery = ''''\<rparr> 201 s)
   \<and> fst (WikiUpdate r projectID wikiTitle update s) =
     outcome (Put r (InUpdate \<lparr>wikiUpdate.WikiPage = update\<rparr>) OutNil
       \<lparr>Path = ''/projects/'' @ projectID @ ''/wiki/'' @ wikiTitle @ ''.json'', RawQuery = ''''\<rparr> 204 s)
   \<and> fst (WikiDelete r projectID wikiTitle s) =
     outcome (Del r InNil OutNil
       \<lparr>Path = ''/projects/'' @ projectID @ ''/wiki/'' @ wikiTitle @ ''.json'', RawQuery = ''''\<rparr> 204 s)
   \<and> (Del r InNil OutNil
         \<lparr>Path = ''/projects/'' @ projectID @ ''/wiki/'' @ wikiTitle @ ''.json'', RawQuery = ''''\<rparr> 204 s
         = ((out, 500, None), s')
       \<longrightarrow> WikiDelete r projectID wikiTitle s = ((500, None), s'))"
  by (simp add: outcome_def WikiAllGet_result WikiSingleGet_result WikiSingleVersionGet_result
      WikiCreate_result WikiUpdate_result WikiDelete_result split_beta)

theorem wiki_status_error_passthrough_witness:
  "Del (replying OutNil 500 None :: (unit, unit, unit) Context) InNil OutNil
       \<lparr>Path = ''/projects/demo/wiki/Home.json'', RawQuery = ''''\<rparr> 204 ()
     = ((OutNil, 500, None), ())
   \<and> WikiDelete (replying OutNil 500 None :: (unit, unit, unit) Context) ''demo'' ''Home'' ()
     = ((500, None), ())"
proof -
  have h: "Del (replying OutNil 500 None :: (unit, unit, unit) Context) InNil OutNil
       \<lparr>Path = ''/projects/'' @ ''demo'' @ ''/wiki/'' @ ''Home'' @ ''.json'', RawQuery = ''''\<rparr> 204 ()
     = ((OutNil, 500, None), ())"
    by (simp add: replying_simps)
  from wiki_status_error_passthrough
    [of "replying OutNil 500 None :: (unit, unit, unit) Context" "''demo''" "()" "''Home''"
       _ _ _ _ OutNil "()"] h
  have "WikiDelete (replying OutNil 500 None :: (unit, unit, unit) Context) ''demo'' ''Home'' ()
     = ((500, None), ())"
    by blast
  with h show ?thesis by simp
qed

text \<open>
  C2. Every operation makes exactly one transport call, whatever its input and whatever
  the transport answers: the log grows by one call, with the verb and the expected status
  of the operation (GET 200 for the three reads, PUT 201 for create, PUT 204 for update,
  DELETE 204 for delete). Update and delete pass a nil destination, and their result type
  has no decoded value.
\<close>

theorem wiki_one_call_verb_status:
  "(\<exists>c. trace (WikiAllGet (recording r) projectID (log, s)) = log @ [c]
        \<and> verb c = GET \<and> expected c = 200)
   \<and> (\<exists>c. trace (WikiSingleGet (recording r) projectID wikiTitle request (log, s)) = log @ [c]
        \<and> verb c = GET \<and> expected c = 200)
   \<and> (\<exists>c. trace (WikiSingleVersionGet (recording r) projectID wikiTitle version request (log, s))
          = log @ [c]
        \<and> verb c = GET \<and> expected c = 200)
   \<and> (\<exists>c. trace (WikiCreate (recording r) projectID wikiTitle create (log, s)) = log @ [c]
        \<and> verb c = PUT \<and> expected c = 201)
   \<and> (\<exists>c. trace (WikiUpdate (recording r) projectID wikiTitle update (log, s)) = log @ [c]
        \<and> verb c = PUT \<and> expected c = 204 \<and> dest c = OutNil)
   \<and> (\<exists>c. trace (WikiDelete (recording r) projectID wikiTitle (log, s)) = log @ [c]
        \<and> verb c = DELETE \<and> expected c = 204 \<and> dest c = OutNil)"
  by (simp add: trace_WikiAllGet trace_WikiSingleGet trace_WikiSingleVersionGet
      trace_WikiCreate trace_WikiUpdate trace_WikiDelete)

text \<open>
  C3. The path of the URL is the concatenation of the fixed pieces with the project
  identifier and the title exactly as the caller gave them, byte for byte, for all
  strings: nothing is escaped by the operations.
\<close>

theorem wiki_path_verbatim:
  "map (Path \<circ> url) (trace (WikiAllGet (recording r) projectID ([], s)))
     = [''/projects/'' @ projectID @ ''/wiki/index.json'']
   \<and> map (Path \<circ> url) (trace (WikiSingleGet (recording r) projectID wikiTitle request ([], s)))
     = [''/projects/'' @ projectID @ ''/wiki/'' @ wikiTitle @ ''.json'']
   \<and> map (Path \<circ> url)
        (trace (WikiSingleVersionGet (recording r) projectID wikiTitle version request ([], s)))
     = [''/projects/'' @ projectID @ ''/wiki/'' @ wikiTitle @ ''/'' @ Itoa version @ ''.json'']
   \<and> map (Path \<circ> url) (trace (WikiCreate (recording r) projectID wikiTitle create ([], s)))
     = [''/projects/'' @ projectID @ ''/wiki/'' @ wikiTitle @ ''.json'']
   \<and> map (Path \<circ> url) (trace (WikiUpdate (recording r) projectID wikiTitle update ([], s)))
     = [''/projects/'' @ projectID @ ''/wiki/'' @ wikiTitle @ ''.json'']
   \<and> map (Path \<circ> url) (trace (WikiDelete (recording r) projectID wikiTitle ([], s)))
     = [''/projects/'' @ projectID @ ''/wiki/'' @ wikiTitle @ ''.json'']"
  by (simp add: trace_WikiAllGet trace_WikiSingleGet trace_WikiSingleVersionGet
      trace_WikiCreate trace_WikiUpdate trace_WikiDelete)

text \<open>
  C4 (as stated). The claim puts \<open>text\<close>, \<open>comments\<close> and \<open>uploads\<close> at the top level of
  the body of the PUT. At the page "Home" with the text "Hello" the body that
  \<open>WikiCreate\<close> sends has one top-level member, \<open>wiki_page\<close>, and no member \<open>text\<close>.
\<close>

theorem wiki_create_body_top_level_counterexample:
  "map keys (sent_bodies token_json
      (WikiCreate (recording (replying OutNil 201 None :: (string, unit, unit) Context))
         ''demo'' ''Home''
         \<lparr>WikiCreateObject.Text = ''Hello'', WikiCreateObject.Comments = '''',
          WikiCreateObject.Uploads = []\<rparr> ([], ())))
     = [[''wiki_page'']]
   \<and> ''text'' \<notin> set (concat (map keys (sent_bodies token_json
      (WikiCreate (recording (replying OutNil 201 None :: (string, unit, unit) Context))
         ''demo'' ''Home''
         \<lparr>WikiCreateObject.Text = ''Hello'', WikiCreateObject.Comments = '''',
          WikiCreateObject.Uploads = []\<rparr> ([], ())))))"
  by (simp add: sent_bodies_def trace_WikiCreate keys_def)

text \<open>
  C4 (amended). The body of \<open>WikiCreate\<close> is an object with the single member
  \<open>wiki_page\<close>, whose value holds \<open>text\<close>, then \<open>comments\<close> and \<open>uploads\<close> when they are
  not empty; the body of \<open>WikiUpdate\<close> is wrapped in the same way and holds \<open>text\<close>, then
  \<open>comments\<close>, \<open>version\<close> and \<open>uploads\<close> when they are not empty.
\<close>

theorem wiki_put_bodies_wrapped:
  "(\<exists>page. sent_bodies enc (WikiCreate (recording r) projectID wikiTitle create ([], s))
              = [JObject [(''wiki_page'', page)]]
      \<and> keys page = ''text''
           # (if WikiCreateObject.Comments create = '''' then [] else [''comments''])
           @ (if WikiCreateObject.Uploads create = [] then [] else [''uploads''])
      \<and> member page ''text'' = Some (JString (WikiCreateObject.Text create)))
   \<and> (\<exists>page. sent_bodies enc (WikiUpdate (recording r) projectID wikiTitle update ([], s))
              = [JObject [(''wiki_page'', page)]]
      \<and> keys page = ''text''
           # (if WikiUpdateObject.Comments update = '''' then [] else [''comments''])
           @ (if WikiUpdateObject.Version update = 0 then [] else [''version''])
           @ (if WikiUpdateObject.Uploads update = [] then [] else [''uploads''])
      \<and> member page ''text'' = Some (JString (WikiUpdateObject.Text update)))"
  by (simp add: sent_bodies_def trace_WikiCreate trace_WikiUpdate keys_def member_def
      Marshal_WikiCreateObject_def Marshal_WikiUpdateObject_def omitempty_def)

text \<open>
  C5. When the transport stores a page with title \<open>T\<close>, text \<open>X\<close> and version \<open>V\<close> in the
  destination of the PUT (the value under \<open>wiki_page\<close>) and answers 201 with a nil error,
  \<open>WikiCreate\<close> returns that page, 201 and a nil error.
\<close>

theorem wiki_create_returns_page:
  assumes "Put r (InCreate \<lparr>wikiCreate.WikiPage = create\<rparr>) (OutSingle wikiSingleResult_zero)
             \<lparr>Path = ''/projects/'' @ projectID @ ''/wiki/'' @ wikiTitle @ ''.json'', RawQuery = ''''\<rparr>
             201 s
           = ((OutSingle \<lparr>wikiSingleResult.WikiPage = page\<rparr>, 201, None), s')"
    and "WikiObject.Title page = T" and "WikiObject.Text page = X" and "WikiObject.Version page = V"
  shows "\<exists>obj. WikiCreate r projectID wikiTitle create s = ((obj, 201, None), s')
           \<and> obj = page
           \<and> WikiObject.Title obj = T \<and> WikiObject.Text obj = X \<and> WikiObject.Version obj = V"
  using assms by (simp add: WikiCreate_result)

theorem wiki_create_returns_page_witness:
  "WikiCreate
      (replying (OutSingle \<lparr>wikiSingleResult.WikiPage = page_of ''Home'' ''Hello'' 1\<rparr>) 201 None
         :: (unit, unit, unit) Context)
      ''demo'' ''Home''
      \<lparr>WikiCreateObject.Text = ''Hello'', WikiCreateObject.Comments = '''',
       WikiCreateObject.Uploads = []\<rparr> ()
     = ((page_of ''Home'' ''Hello'' 1, 201, None), ())
   \<and> WikiObject.Title (page_of ''Home'' ''Hello'' 1 :: unit WikiObject) = ''Home''
   \<and> WikiObject.Text (page_of ''Home'' ''Hello'' 1 :: unit WikiObject) = ''Hello''
   \<and> WikiObject.Version (page_of ''Home'' ''Hello'' 1 :: unit WikiObject) = 1"
  using wiki_create_returns_page
    [of "replying (OutSingle \<lparr>wikiSingleResult.WikiPage = page_of ''Home'' ''Hello'' 1\<rparr>) 201 None
           :: (unit, unit, unit) Context"
        "\<lparr>WikiCreateObject.Text = ''Hello'', WikiCreateObject.Comments = '''',
          WikiCreateObject.Uploads = []\<rparr>"
        "''demo''" "''Home''" "()" "page_of ''Home'' ''Hello'' 1" "()" "''Home''" "''Hello''" 1]
  by (simp add: replying_simps page_of_def)

text \<open>
  C6. With the include-set \<open>["attachments"]\<close> the query string of the URL that
  \<open>WikiSingleGet\<close> and \<open>WikiSingleVersionGet\<close> hand to the transport is
  \<open>include=attachments\<close>; with an empty include-set it is empty, so the URL has no query
  part. This is for \<open>urlIncludes\<close> as the spec describes it.
\<close>

theorem wiki_single_include_query:
  "map (RawQuery \<circ> url)
      (trace (WikiSingleGet (recording r) projectID wikiTitle \<lparr>Includes = [''attachments'']\<rparr> ([], s)))
     = [''include=attachments'']
   \<and> map (RawQuery \<circ> url)
      (trace (WikiSingleVersionGet (recording r) projectID wikiTitle version
                \<lparr>Includes = [''attachments'']\<rparr> ([], s)))
     = [''include=attachments'']
   \<and> map (RawQuery \<circ> url)
      (trace (WikiSingleGet (recording r) projectID wikiTitle \<lparr>Includes = []\<rparr> ([], s)))
     = ['''']
   \<and> map (RawQuery \<circ> url)
      (trace (WikiSingleVersionGet (recording r) projectID wikiTitle version \<lparr>Includes = []\<rparr> ([], s)))
     = ['''']"
  by (simp add: trace_WikiSingleGet trace_WikiSingleVersionGet Encode_attachments Encode_no_includes)

text \<open>
  C7. \<open>WikiAllGet\<close> returns the pages that the transport stored in the destination: the
  same list, in the same order.
\<close>

theorem wiki_all_get_order:
  assumes "Get r (OutAll wikiAllResult_zero)
             \<lparr>Path = ''/projects/'' @ projectID @ ''/wiki/index.json'', RawQuery = ''''\<rparr> 200 s
           = ((OutAll \<lparr>WikiPages = pages\<rparr>, status, err), s')"
  shows "WikiAllGet r projectID s = ((pages, status, err), s')"
  using assms by (simp add: WikiAllGet_result)

theorem wiki_all_get_order_witness:
  "WikiAllGet
      (replying (OutAll \<lparr>WikiPages = [summary ''Zebra'' 3, summary ''Apple'' 1, summary ''Zebra'' 3]\<rparr>)
         200 None :: (unit, unit, unit) Context)
      ''demo'' ()
     = (([summary ''Zebra'' 3, summary ''Apple'' 1, summary ''Zebra'' 3], 200, None), ())"
  using wiki_all_get_order
    [of "replying (OutAll \<lparr>WikiPages = [summary ''Zebra'' 3, summary ''Apple'' 1, summary ''Zebra'' 3]\<rparr>)
           200 None :: (unit, unit, unit) Context"
        "''demo''" "()" "[summary ''Zebra'' 3, summary ''Apple'' 1, summary ''Zebra'' 3]" 200 None "()"]
  by (simp add: replying_simps)

text \<open>
  C8. \<open>WikiSingleVersionGet\<close> makes one call: a GET with the expected status 200, the
  path \<open>/projects/{projectID}/wiki/{wikiTitle}/{version}.json\<close> and, as the query string,
  the encoding of the include-set. The version is written in decimal: read back as a
  decimal numeral, the text that \<open>Itoa\<close> produced is the version.
\<close>

theorem wiki_single_version_get_call:
  "trace (WikiSingleVersionGet (recording r) projectID wikiTitle version request (log, s))
     = log @ [\<lparr>verb = GET, body = InNil, dest = OutSingle wikiSingleResult_zero,
                url = \<lparr>Path = ''/projects/'' @ projectID @ ''/wiki/'' @ wikiTitle @ ''/''
                              @ Itoa version @ ''.json'',
                       RawQuery = Values_Encode (urlIncludes [] (Includes request))\<rparr>,
                expected = 200\<rparr>]
   \<and> decimal_int (Itoa version) = version"
  by (simp add: trace_WikiSingleVersionGet decimal_int_Itoa)

text \<open>
  C9. In the body of an update the member \<open>version\<close> is absent when \<open>Version\<close> is 0 and
  holds the version otherwise. In the bodies of create and update the member \<open>comments\<close>
  is absent when \<open>Comments\<close> is empty, and \<open>uploads\<close> is absent when \<open>Uploads\<close> has no
  element.
\<close>

theorem wiki_omitempty_members:
  "member (Marshal_WikiUpdateObject enc update) ''version''
     = (if WikiUpdateObject.Version update = 0 then None
        else Some (JNumber (WikiUpdateObject.Version update)))
   \<and> (''version'' \<in> set (keys (Marshal_WikiUpdateObject enc update)))
     = (WikiUpdateObject.Version update \<noteq> 0)
   \<and> member (Marshal_WikiUpdateObject enc update) ''comments''
     = (if WikiUpdateObject.Comments update = '''' then None
        else Some (JString (WikiUpdateObject.Comments update)))
   \<and> member (Marshal_WikiUpdateObject enc update) ''uploads''
     = (if WikiUpdateObject.Uploads update = [] then None
        else Some (JArray (map enc (WikiUpdateObject.Uploads update))))
   \<and> member (Marshal_WikiCreateObject enc create) ''comments''
     = (if WikiCreateObject.Comments create = '''' then None
        else Some (JString (WikiCreateObject.Comments create)))
   \<and> member (Marshal_WikiCreateObject enc create) ''uploads''
     = (if WikiCreateObject.Uploads create = [] then None
        else Some (JArray (map enc (WikiCreateObject.Uploads create))))
   \<and> Marshal_WikiUpdateObject enc (update\<lparr>WikiUpdateObject.Version := 0\<rparr>)
     = JObject (filter (\<lambda>m. fst m \<noteq> ''version'') (members (Marshal_WikiUpdateObject enc update)))"
  by (simp add: member_def keys_def Marshal_WikiCreateObject_def Marshal_WikiUpdateObject_def
      omitempty_def)

text \<open>
  C10. When the transport returns an error, the four operations with a value still
  return what the destination holds after the call, with the status and the error: the
  value the transport stored, or the zero value when it stored nothing.
\<close>

theorem wiki_error_keeps_destination:
  "(Get r (OutAll wikiAllResult_zero)
        \<lparr>Path = ''/projects/'' @ projectID @ ''/wiki/index.json'', RawQuery = ''''\<rparr> 200 s
      = ((OutAll wa, status, Some e), s')
     \<longrightarrow> WikiAllGet r projectID s = ((WikiPages wa, status, Some e), s'))
   \<and> (Get r (OutSingle wikiSingleResult_zero)
        \<lparr>Path = ''/projects/'' @ projectID @ ''/wiki/'' @ wikiTitle @ ''.json'',
         RawQuery = Values_Encode (urlIncludes [] (Includes request))\<rparr> 200 s
      = ((OutSingle ws, status, Some e), s')
     \<longrightarrow> WikiSingleGet r projectID wikiTitle request s
         = ((wikiSingleResult.WikiPage ws, status, Some e), s'))
   \<and> (Get r (OutSingle wikiSingleResult_zero)
        \<lparr>Path = ''/projects/'' @ projectID @ ''/wiki/'' @ wikiTitle @ ''/'' @ Itoa version @ ''.json'',
         RawQuery = Values_Encode (urlIncludes [] (Includes request))\<rparr> 200 s
      = ((OutSingle ws, status, Some e), s')
     \<longrightarrow> WikiSingleVersionGet r projectID wikiTitle version request s
         = ((wikiSingleResult.WikiPage ws, status, Some e), s'))
   \<and> (Put r (InCreate \<lparr>wikiCreate.WikiPage = create\<rparr>) (OutSingle wikiSingleResult_zero)
        \<lparr>Path = ''/projects/'' @ projectID @ ''/wiki/'' @ wikiTitle @ ''.json'', RawQuery = ''''\<rparr> 201 s
      = ((OutSingle ws, status, Some e), s')
     \<longrightarrow> WikiCreate r projectID wikiTitle create s
         = ((wikiSingleResult.WikiPage ws, status, Some e), s'))"
  by (simp add: WikiAllGet_result WikiSingleGet_result WikiSingleVersionGet_result
      WikiCreate_result)

theorem wiki_error_keeps_destination_witness:
  "WikiAllGet (failing 0 (Error ''timeout'') :: (unit, unit, unit) Context) ''demo'' ()
     = (([], 0, Some (Error ''timeout'')), ())
   \<and> WikiSingleGet (failing 0 (Error ''timeout'') :: (unit, unit, unit) Context)
        ''demo'' ''Home'' \<lparr>Includes = []\<rparr> ()
     = ((WikiObject_zero, 0, Some (Error ''timeout'')), ())
   \<and> WikiSingleVersionGet (failing 0 (Error ''timeout'') :: (unit, unit, unit) Context)
        ''demo'' ''Home'' 2 \<lparr>Includes = []\<rparr> ()
     = ((WikiObject_zero, 0, Some (Error ''timeout'')), ())
   \<and> WikiCreate (failing 0 (Error ''timeout'') :: (unit, unit, unit) Context) ''demo'' ''Home''
        \<lparr>WikiCreateObject.Text = ''Hello'', WikiCreateObject.Comments = '''',
         WikiCreateObject.Uploads = []\<rparr> ()
     = ((WikiObject_zero, 0, Some (Error ''timeout'')), ())
   \<and> WikiCreate
        (replying (OutSingle \<lparr>wikiSingleResult.WikiPage = page_of ''Home'' '''' 0\<rparr>) 201
           (Some (Error ''decode'')) :: (unit, unit, unit) Context)
        ''demo'' ''Home''
        \<lparr>WikiCreateObject.Text = ''Hello'', WikiCreateObject.Comments = '''',
         WikiCreateObject.Uploads = []\<rparr> ()
     = ((page_of ''Home'' '''' 0, 201, Some (Error ''decode'')), ())"
  using wiki_error_keeps_destination
    [of "failing 0 (Error ''timeout'') :: (unit, unit, unit) Context" "''demo''" "()"
        wikiAllResult_zero 0 "Error ''timeout''" "()" "''Home''" "\<lparr>Includes = []\<rparr>"
        wikiSingleResult_zero 2
        "\<lparr>WikiCreateObject.Text = ''Hello'', WikiCreateObject.Comments = '''',
          WikiCreateObject.Uploads = []\<rparr>"]
    wiki_error_keeps_destination
    [of "replying (OutSingle \<lparr>wikiSingleResult.WikiPage = page_of ''Home'' '''' 0\<rparr>) 201
           (Some (Error ''decode'')) :: (unit, unit, unit) Context" "''demo''" "()"
        wikiAllResult_zero 201 "Error ''decode''" "()" "''Home''" "\<lparr>Includes = []\<rparr>"
        "\<lparr>wikiSingleResult.WikiPage = page_of ''Home'' '''' 0\<rparr>" 2
        "\<lparr>WikiCreateObject.Text = ''Hello'', WikiCreateObject.Comments = '''',
          WikiCreateObject.Uploads = []\<rparr>"]
  by (simp add: failing_simps replying_simps wikiAllResult_zero_def wikiSingleResult_zero_def)

end
